theory Spec2Isabelle
  imports Complex_Main "HOL-Library.Sublist"
begin

section \<open>LearnPage: the chat component of the Gopher archive\<close>

text \<open>
  A shallow embedding of \<^verbatim>\<open>src/frontend/src/pages/LearnPage.js\<close>. The component's
  \<^verbatim>\<open>useState\<close> variables are the fields of one record; each handler is a function from the
  state in which it is dispatched to the updated state and the list of effects it performs on
  the browser (network calls, timers, the recognition session), in program order. A handler
  is the one of the latest render, so the variables it closes over are the fields of the
  state it is dispatched in; a callback that runs later (a timer) carries the values it
  captured. The continuation of \<^verbatim>\<open>handleSubmit\<close> after its \<^verbatim>\<open>await\<close> is a handler of
  its own, dispatched when the request settles.
\<close>

subsection \<open>Strings and \<^verbatim>\<open>String.prototype.trim\<close>\<close>

text \<open>
  Strings are byte lists holding UTF-8. \<^verbatim>\<open>trim\<close> removes the code points of the
  ECMAScript classes WhiteSpace and LineTerminator from both ends; \<open>ws_codes\<close> lists their
  encodings (U+0009 to U+000D, U+0020, U+00A0, U+1680, U+2000 to U+200A, U+2028, U+2029,
  U+202F, U+205F, U+3000, U+FEFF).
\<close>

definition ws_codes :: "string list" where
  "ws_codes =
     [[CHR 0x09], [CHR 0x0A], [CHR 0x0B], [CHR 0x0C], [CHR 0x0D], [CHR 0x20],
      [CHR 0xC2, CHR 0xA0],
      [CHR 0xE1, CHR 0x9A, CHR 0x80],
      [CHR 0xE2, CHR 0x80, CHR 0x80], [CHR 0xE2, CHR 0x80, CHR 0x81],
      [CHR 0xE2, CHR 0x80, CHR 0x82], [CHR 0xE2, CHR 0x80, CHR 0x83],
      [CHR 0xE2, CHR 0x80, CHR 0x84], [CHR 0xE2, CHR 0x80, CHR 0x85],
      [CHR 0xE2, CHR 0x80, CHR 0x86], [CHR 0xE2, CHR 0x80, CHR 0x87],
      [CHR 0xE2, CHR 0x80, CHR 0x88], [CHR 0xE2, CHR 0x80, CHR 0x89],
      [CHR 0xE2, CHR 0x80, CHR 0x8A],
      [CHR 0xE2, CHR 0x80, CHR 0xA8], [CHR 0xE2, CHR 0x80, CHR 0xA9],
      [CHR 0xE2, CHR 0x80, CHR 0xAF],
      [CHR 0xE2, CHR 0x81, CHR 0x9F],
      [CHR 0xE3, CHR 0x80, CHR 0x80],
      [CHR 0xEF, CHR 0xBB, CHR 0xBF]]"

text \<open>The length of the code in \<open>codes\<close> that \<open>s\<close> starts with; 0 when it starts with none.\<close>

definition ws_len :: "string list \<Rightarrow> string \<Rightarrow> nat" where
  "ws_len codes s =
     (case find (\<lambda>w. w \<noteq> [] \<and> take (length w) s = w) codes of
        None \<Rightarrow> 0
      | Some w \<Rightarrow> length w)"

function strip :: "string list \<Rightarrow> string \<Rightarrow> string" where
  "strip codes s = (if ws_len codes s = 0 then s else strip codes (drop (ws_len codes s) s))"
  by pat_completeness auto
termination
proof (relation "measure (\<lambda>(codes, s). length s)")
  show "wf (measure (\<lambda>(codes, s). length s))" by simp
next
  fix codes :: "string list" and s :: string
  assume "ws_len codes s \<noteq> 0"
  then have "s \<noteq> []" and "0 < ws_len codes s"
    by (auto simp: ws_len_def find_Some_iff split: option.splits)
  then show "((codes, drop (ws_len codes s) s), (codes, s)) \<in> measure (\<lambda>(codes, s). length s)"
    by simp
qed

declare strip.simps [simp del]

definition trimStart :: "string \<Rightarrow> string" where
  "trimStart s = strip ws_codes s"

definition trimEnd :: "string \<Rightarrow> string" where
  "trimEnd s = rev (strip (map rev ws_codes) (rev s))"

definition trim :: "string \<Rightarrow> string" where
  "trim s = trimEnd (trimStart s)"

subsection \<open>JSON values\<close>

text \<open>
  What \<^verbatim>\<open>response.json()\<close> resolves to. A number is kept as an integer: the handler only
  tests it against zero. An object is the list of its members; a parsed object has each key
  once.
\<close>

datatype json =
    JNull
  | JBool bool
  | JNum int
  | JStr string
  | JArr "json list"
  | JObj "(string \<times> json) list"

text \<open>
  Reading \<^verbatim>\<open>data.response\<close>: a TypeError on \<^verbatim>\<open>null\<close>, \<^verbatim>\<open>undefined\<close> where the value has
  no such property (every boolean, number, string and array, and an object without the key).
\<close>

datatype property = Throws | Undefined | Value json

fun read_response :: "json \<Rightarrow> property" where
  "read_response JNull = Throws"
| "read_response (JObj kvs) =
     (case map_of kvs ''response'' of None \<Rightarrow> Undefined | Some v \<Rightarrow> Value v)"
| "read_response _ = Undefined"

fun truthy :: "json \<Rightarrow> bool" where
  "truthy JNull = False"
| "truthy (JBool b) = b"
| "truthy (JNum n) = (n \<noteq> 0)"
| "truthy (JStr s) = (s \<noteq> [])"
| "truthy (JArr _) = True"
| "truthy (JObj _) = True"

text \<open>\<^verbatim>\<open>p || d\<close> for a property that did not throw.\<close>

fun or_default :: "property \<Rightarrow> json \<Rightarrow> json" where
  "or_default (Value v) d = (if truthy v then v else d)"
| "or_default _ d = d"

definition has_response_field :: "json \<Rightarrow> bool" where
  "has_response_field data =
     (case data of JObj kvs \<Rightarrow> map_of kvs ''response'' \<noteq> None | _ \<Rightarrow> False)"

subsection \<open>Messages and the component state\<close>

datatype role = User | Assistant

record message =
  role :: role
  content :: json
  timestamp :: string

record recognition =
  lang :: string
  continuous_mode :: bool
  interimResults :: bool

record state =
  query :: string
  messages :: "message list"
  loading :: bool
  error :: "string option"
  isRecordingLearn :: bool
  recognitionLearn :: "recognition option"

definition initial_state :: state where
  "initial_state =
     \<lparr>query = [], messages = [], loading = False, error = None,
      isRecordingLearn = False, recognitionLearn = None\<rparr>"

subsection \<open>Effects\<close>

text \<open>
  A callback handed to \<^verbatim>\<open>setTimeout\<close>. \<open>AutoStop\<close> is the one of
  \<^verbatim>\<open>toggleMicrophoneLearn\<close>; it carries the value of \<^verbatim>\<open>isRecordingLearn\<close> it closed over.
\<close>

datatype callback = FocusInput | AutoStop bool

text \<open>The calls made on the jsPDF document: \<open>Text s x y\<close> is \<^verbatim>\<open>doc.text(s, x, y)\<close>.\<close>

datatype pdf_op =
    SetFontSize nat
  | SetFont string string
  | Text string real real
  | Line real real real real
  | AddPage
  | Save string

datatype exn = TypeError

datatype effect =
    PreventDefault
  | RecognitionStart
  | RecognitionStop
  | Fetch string string "(string \<times> string) list" json
  | SetTimeout callback nat
  | Focus
  | ConsoleWarn string
  | ConsoleError string
  | ConsoleLog string json
  | ClipboardWrite string
  | Pdf "pdf_op list"
  | Notify string
  | Uncaught exn

text \<open>How a \<^verbatim>\<open>fetch\<close> settles: the promise rejects, or it resolves to a response with
  its \<^verbatim>\<open>ok\<close> flag (status 2xx) and what parsing its body gives (\<open>None\<close>: \<^verbatim>\<open>json()\<close>
  rejects).\<close>

datatype fetch_result = NetworkFailure | Response bool "json option"

subsection \<open>\<^verbatim>\<open>handleSubmit\<close>\<close>

definition api_url :: string where
  "api_url = ''http://localhost:5000/api/learn''"

definition connect_error :: string where
  "connect_error = ''Unable to connect to archive. Please try again.''"

definition no_response :: string where
  "no_response = ''No response from archive.''"

text \<open>
  Lines 115 to 134, up to the \<^verbatim>\<open>await\<close>. \<open>now\<close> is \<^verbatim>\<open>new Date().toISOString()\<close>. The
  body of the request is the value given to \<^verbatim>\<open>JSON.stringify\<close>. Calling \<^verbatim>\<open>stop\<close> on a
  \<^verbatim>\<open>null\<close> recognition object throws before any state is set.
\<close>

definition handleSubmit :: "string \<Rightarrow> state \<Rightarrow> state \<times> effect list" where
  "handleSubmit now st =
     (if trim (query st) = [] then (st, [PreventDefault])
      else if isRecordingLearn st \<and> recognitionLearn st = None
        then (st, [PreventDefault, Uncaught TypeError])
      else
        let userMessage = \<lparr>role = User, content = JStr (query st), timestamp = now\<rparr>
        in (st\<lparr>messages := messages st @ [userMessage], query := [],
                loading := True, error := None\<rparr>,
            [PreventDefault]
            @ (if isRecordingLearn st then [RecognitionStop] else [])
            @ [Fetch api_url ''POST'' [(''Content-Type'', ''application/json'')]
                 (JObj [(''query'', JStr (query st))])]))"

text \<open>Lines 136 to 153: what runs once the request has settled.\<close>

definition catch_finally :: "effect list \<Rightarrow> state \<Rightarrow> state \<times> effect list" where
  "catch_finally logged st =
     (st\<lparr>error := Some connect_error, loading := False\<rparr>,
      logged @ [ConsoleError ''Learn API error:''])"

definition handleSubmit_settled :: "fetch_result \<Rightarrow> string \<Rightarrow> state \<Rightarrow> state \<times> effect list" where
  "handleSubmit_settled r now st =
     (case r of
        NetworkFailure \<Rightarrow> catch_finally [] st
      | Response ok body \<Rightarrow>
          if \<not> ok then catch_finally [] st
          else (case body of
                  None \<Rightarrow> catch_finally [] st
                | Some data \<Rightarrow>
                    (case read_response data of
                       Throws \<Rightarrow> catch_finally [ConsoleLog ''Learn API data:'' data] st
                     | p \<Rightarrow>
                         let assistantMessage =
                               \<lparr>role = Assistant, content = or_default p (JStr no_response),
                                timestamp = now\<rparr>
                         in (st\<lparr>messages := messages st @ [assistantMessage],
                                 loading := False\<rparr>,
                             [ConsoleLog ''Learn API data:'' data]))))"

subsection \<open>Dictation\<close>

text \<open>Lines 71 to 98. The timer's callback closes over the handler's own
  \<^verbatim>\<open>isRecordingLearn\<close>.\<close>

definition toggleMicrophoneLearn :: "state \<Rightarrow> state \<times> effect list" where
  "toggleMicrophoneLearn st =
     (if recognitionLearn st = None \<or> loading st
      then (st, if recognitionLearn st = None
                then [ConsoleWarn ''Speech recognition not supported in this browser.'']
                else [])
      else if isRecordingLearn st
        then (st\<lparr>isRecordingLearn := False\<rparr>, [RecognitionStop, SetTimeout FocusInput 100])
      else (st\<lparr>isRecordingLearn := True\<rparr>,
            [RecognitionStart, SetTimeout (AutoStop (isRecordingLearn st)) 3000]))"

text \<open>What a timer's callback does when it fires (lines 49 to 53 and 92 to 96).\<close>

fun run_callback :: "callback \<Rightarrow> state \<Rightarrow> state \<times> effect list" where
  "run_callback FocusInput st = (st, [Focus])"
| "run_callback (AutoStop captured) st = (st, if captured then [RecognitionStop] else [])"

text \<open>Lines 26 to 44: the loop over the results from \<^verbatim>\<open>resultIndex\<close> on, each a transcript
  and its \<^verbatim>\<open>isFinal\<close> flag; the pair is (interimTranscript, finalTranscript).\<close>

fun collect_transcripts :: "(string \<times> bool) list \<Rightarrow> string \<times> string \<Rightarrow> string \<times> string" where
  "collect_transcripts [] acc = acc"
| "collect_transcripts ((transcript, isFinal) # rest) (interim, final) =
     (if isFinal then collect_transcripts rest (interim, final @ transcript)
      else collect_transcripts rest (interim @ transcript, final))"

definition onresult :: "nat \<Rightarrow> (string \<times> bool) list \<Rightarrow> state \<Rightarrow> state \<times> effect list" where
  "onresult resultIndex results st =
     (let (interimTranscript, finalTranscript) =
            collect_transcripts (drop resultIndex results) ([], [])
      in if finalTranscript \<noteq> [] then (st\<lparr>query := finalTranscript\<rparr>, [])
         else if interimTranscript \<noteq> [] then (st\<lparr>query := interimTranscript\<rparr>, [])
         else (st, []))"

definition onend :: "state \<Rightarrow> state \<times> effect list" where
  "onend st = (st\<lparr>isRecordingLearn := False\<rparr>, [SetTimeout FocusInput 100])"

definition onerror :: "string \<Rightarrow> state \<Rightarrow> state \<times> effect list" where
  "onerror err st =
     (st\<lparr>isRecordingLearn := False\<rparr>,
      [ConsoleError ''Speech recognition error:'', SetTimeout FocusInput 100])"

subsection \<open>Mount\<close>

definition newline :: string where
  "newline = [CHR 0x0A]"

definition bullet :: string where
  "bullet = [CHR 0xE2, CHR 0x80, CHR 0xA2]"

definition welcome_text :: string where
  "welcome_text =
     ''Welcome to the Gopher Archive Learning Portal. I can help you understand:''
     @ newline @ newline
     @ bullet @ '' Gopher protocol history and technical details'' @ newline
     @ bullet @ '' Differences between old and modern technologies'' @ newline
     @ bullet @ '' Internet evolution from 1990s to today'' @ newline
     @ bullet @ '' Vintage computing and protocols'' @ newline @ newline
     @ ''What would you like to learn about?''"

text \<open>The two mount effects (lines 18 to 69 and 101 to 107); \<open>supported\<close> says whether the
  browser has a SpeechRecognition constructor.\<close>

definition mount :: "bool \<Rightarrow> string \<Rightarrow> state \<Rightarrow> state" where
  "mount supported now st =
     (let st1 = (if supported
                 then st\<lparr>recognitionLearn :=
                          Some \<lparr>lang = ''en-US'', continuous_mode = False,
                                interimResults = True\<rparr>\<rparr>
                 else st)
      in st1\<lparr>messages :=
               [\<lparr>role = Assistant, content = JStr welcome_text, timestamp = now\<rparr>]\<rparr>)"

subsection \<open>Transcript export\<close>

text \<open>
  What the handlers take from the browser and from jsPDF: the page size of a new document,
  jsPDF's line wrapping, \<^verbatim>\<open>new Date(t).toLocaleTimeString()\<close> as a function of the
  timestamp, and the string conversion of a value that is not a string.
\<close>

record platform =
  pageWidth :: real
  pageHeight :: real
  splitTextToSize :: "json \<Rightarrow> real \<Rightarrow> string list"
  toLocaleTimeString :: "string \<Rightarrow> string"
  stringOf :: "json \<Rightarrow> string"

text \<open>A value inside a template literal.\<close>

definition ToString :: "platform \<Rightarrow> json \<Rightarrow> string" where
  "ToString p v = (case v of JStr s \<Rightarrow> s | _ \<Rightarrow> stringOf p v)"

text \<open>\<^verbatim>\<open>Array.prototype.join\<close> on strings: the loop of the language definition, with the
  index \<open>k\<close> and the result \<open>R\<close> built so far.\<close>

fun join_loop :: "string \<Rightarrow> string list \<Rightarrow> nat \<Rightarrow> string \<Rightarrow> string" where
  "join_loop sep [] k R = R"
| "join_loop sep (x # xs) k R = join_loop sep xs (Suc k) ((if 0 < k then R @ sep else R) @ x)"

definition js_join :: "string \<Rightarrow> string list \<Rightarrow> string" where
  "js_join sep xs = join_loop sep xs 0 []"

definition role_label :: "role \<Rightarrow> string" where
  "role_label r = (if r = User then ''YOU'' else ''ARCHIVE'')"

text \<open>Lines 166 to 170.\<close>

definition conversationText :: "platform \<Rightarrow> message list \<Rightarrow> string" where
  "conversationText p msgs =
     js_join newline
       (map (\<lambda>msg.
               let time = toLocaleTimeString p (timestamp msg);
                   r = role_label (role msg)
               in ''['' @ time @ ''] '' @ r @ '':'' @ newline
                  @ ToString p (content msg) @ newline)
            msgs)"

text \<open>Lines 165 to 175; the notification is shown once the write has resolved.\<close>

definition handleCopyText :: "platform \<Rightarrow> state \<Rightarrow> state \<times> effect list" where
  "handleCopyText p st =
     (st, [ClipboardWrite (conversationText p (messages st)),
           Notify ''Conversation copied to clipboard!''])"

text \<open>The plain-text export in the specification's words: one block per message, in order,
  a newline between two blocks.\<close>

definition spec_block :: "platform \<Rightarrow> message \<Rightarrow> string" where
  "spec_block p m =
     ''['' @ toLocaleTimeString p (timestamp m) @ ''] ''
     @ (case role m of User \<Rightarrow> ''YOU'' | Assistant \<Rightarrow> ''ARCHIVE'') @ '':'' @ newline
     @ ToString p (content m) @ newline"

fun spec_export :: "platform \<Rightarrow> message list \<Rightarrow> string" where
  "spec_export p [] = []"
| "spec_export p [m] = spec_block p m"
| "spec_export p (m # ms) = spec_block p m @ newline @ spec_export p ms"

subsection \<open>PDF export\<close>

definition margin :: real where
  "margin = 20"

definition lineHeight :: real where
  "lineHeight = 7"

text \<open>Lines 222 to 229: the inner loop, from the vertical position \<open>y\<close>; the result is the
  calls made and the position reached. \<open>H\<close> is the page height.\<close>

fun write_lines :: "real \<Rightarrow> string list \<Rightarrow> real \<Rightarrow> pdf_op list \<times> real" where
  "write_lines H [] y = ([], y)"
| "write_lines H (line # rest) y =
     (let (brk, y1) = (if y > H - margin then ([AddPage], margin) else ([], y));
          (ops, y2) = write_lines H rest (y1 + lineHeight)
      in (brk @ [Text line margin y1] @ ops, y2))"

text \<open>Lines 205 to 231: the body of the outer loop for one message.\<close>

definition write_message :: "platform \<Rightarrow> message \<Rightarrow> real \<Rightarrow> pdf_op list \<times> real" where
  "write_message p msg y =
     (let time = toLocaleTimeString p (timestamp msg);
          r = role_label (role msg);
          (brk, y1) = (if y > pageHeight p - margin then ([AddPage], margin) else ([], y));
          header = [SetFont ''courier'' ''bold'',
                    Text (''['' @ time @ ''] '' @ r @ '':'') margin y1];
          lines = splitTextToSize p (content msg) (pageWidth p - 2 * margin);
          (ops, y2) = write_lines (pageHeight p) lines (y1 + lineHeight)
      in (brk @ header @ [SetFont ''courier'' ''normal''] @ ops, y2 + 5))"

text \<open>Lines 204 to 232: the outer loop.\<close>

fun write_messages :: "platform \<Rightarrow> message list \<Rightarrow> real \<Rightarrow> pdf_op list \<times> real" where
  "write_messages p [] y = ([], y)"
| "write_messages p (msg # rest) y =
     (let (ops1, y1) = write_message p msg y;
          (ops2, y2) = write_messages p rest y1
      in (ops1 @ ops2, y2))"

text \<open>Lines 178 to 238. \<open>generated\<close> is \<^verbatim>\<open>new Date().toLocaleString()\<close> and \<open>stamp\<close> the
  digits of \<^verbatim>\<open>Date.now()\<close>.\<close>

definition pdf_preamble :: "platform \<Rightarrow> string \<Rightarrow> pdf_op list" where
  "pdf_preamble p generated =
     [SetFontSize 16, SetFont ''courier'' ''bold'',
      Text ''GOPHER ARCHIVE - LEARNING SESSION'' margin margin,
      SetFontSize 10, SetFont ''courier'' ''normal'',
      Text (''Generated: '' @ generated) margin (margin + 10),
      Line margin (margin + 10 + 10) (pageWidth p - margin) (margin + 10 + 10),
      SetFontSize 10]"

definition message_ops :: "platform \<Rightarrow> message list \<Rightarrow> pdf_op list" where
  "message_ops p msgs = fst (write_messages p msgs (margin + 10 + 10 + 10))"

definition handleDownloadPDF ::
  "platform \<Rightarrow> string \<Rightarrow> string \<Rightarrow> state \<Rightarrow> state \<times> effect list" where
  "handleDownloadPDF p generated stamp st =
     (st, [Pdf (pdf_preamble p generated @ message_ops p (messages st)
                @ [Save (''gopher-archive-'' @ stamp @ ''.pdf'')]),
           Notify ''PDF downloaded successfully!''])"

text \<open>The vertical position of the first text written by a list of calls.\<close>

fun first_text_y :: "pdf_op list \<Rightarrow> real option" where
  "first_text_y [] = None"
| "first_text_y (Text s x y # ops) = Some y"
| "first_text_y (_ # ops) = first_text_y ops"

subsection \<open>Events\<close>

text \<open>Lines 157 to 162.\<close>

definition handleKeyPress :: "string \<Rightarrow> bool \<Rightarrow> string \<Rightarrow> state \<Rightarrow> state \<times> effect list" where
  "handleKeyPress key shiftKey now st =
     (if key = ''Enter'' \<and> \<not> shiftKey
      then (let (st', effs) = handleSubmit now st in (st', PreventDefault # effs))
      else (st, []))"

text \<open>
  What can happen to the mounted component: each event runs the handler that the markup
  wires to it (\<^verbatim>\<open>onChange\<close> line 351, \<^verbatim>\<open>onKeyPress\<close> line 352, \<^verbatim>\<open>onSubmit\<close> line 345,
  \<^verbatim>\<open>onClick\<close> lines 270, 277 and 361), or a callback of the recognition session, of a
  timer or of the request. The \<^verbatim>\<open>disabled\<close> attributes of the controls are markup, not
  part of any handler, and put no condition on an event here.
\<close>

datatype event =
    Change string
  | KeyPress string bool string
  | FormSubmit string
  | MicClick
  | CopyClick
  | PdfClick string string
  | SpeechResult nat "(string \<times> bool) list"
  | SpeechEnd
  | SpeechError string
  | TimerFired callback
  | FetchSettled fetch_result string

fun dispatch :: "platform \<Rightarrow> event \<Rightarrow> state \<Rightarrow> state \<times> effect list" where
  "dispatch p (Change v) st = (st\<lparr>query := v\<rparr>, [])"
| "dispatch p (KeyPress key shiftKey now) st = handleKeyPress key shiftKey now st"
| "dispatch p (FormSubmit now) st = handleSubmit now st"
| "dispatch p MicClick st = toggleMicrophoneLearn st"
| "dispatch p CopyClick st = handleCopyText p st"
| "dispatch p (PdfClick generated stamp) st = handleDownloadPDF p generated stamp st"
| "dispatch p (SpeechResult resultIndex results) st = onresult resultIndex results st"
| "dispatch p SpeechEnd st = onend st"
| "dispatch p (SpeechError err) st = onerror err st"
| "dispatch p (TimerFired cb) st = run_callback cb st"
| "dispatch p (FetchSettled r now) st = handleSubmit_settled r now st"

text \<open>A run: the events in order, from a state.\<close>

fun run :: "platform \<Rightarrow> event list \<Rightarrow> state \<Rightarrow> state" where
  "run p [] st = st"
| "run p (e # es) st = run p es (fst (dispatch p e st))"

text \<open>The invariant that makes the \<^verbatim>\<open>stop\<close> call of line 120 safe.\<close>

definition recording_has_session :: "state \<Rightarrow> bool" where
  "recording_has_session st = (isRecordingLearn st \<longrightarrow> recognitionLearn st \<noteq> None)"


subsection \<open>Pagination predicates\<close>

text \<open>Every text of \<open>ops\<close> is written at a vertical position of at most \<open>limit\<close>.\<close>

definition texts_within :: "real \<Rightarrow> pdf_op list \<Rightarrow> bool" where
  "texts_within limit ops = (\<forall>s x y. Text s x y \<in> set ops \<longrightarrow> y \<le> limit)"

text \<open>After every page break of \<open>ops\<close>, the next text is written at the top margin.\<close>

definition breaks_ok :: "pdf_op list \<Rightarrow> bool" where
  "breaks_ok ops =
     (\<forall>pre post. ops = pre @ AddPage # post \<longrightarrow> first_text_y post = Some margin)"

subsection \<open>Example inputs\<close>

definition mounted :: state where
  "mounted = mount True ''2025-10-31T20:00:00.000Z'' initial_state"

text \<open>A request is in flight and the final result of dictation has since put a new draft
  in the input (\<open>pending_reached\<close> below runs the component to this state).\<close>

definition pending :: state where
  "pending =
     \<lparr>query = ''again'',
      messages = [\<lparr>role = Assistant, content = JStr welcome_text, timestamp = ''t0''\<rparr>,
                  \<lparr>role = User, content = JStr ''Hi'', timestamp = ''t1''\<rparr>],
      loading = True, error = None, isRecordingLearn = False,
      recognitionLearn =
        Some \<lparr>lang = ''en-US'', continuous_mode = False, interimResults = True\<rparr>\<rparr>"

text \<open>An A4 page in millimetres, on which every content wraps to 70 lines.\<close>

definition a4 :: platform where
  "a4 = \<lparr>pageWidth = 210, pageHeight = 297,
         splitTextToSize = (\<lambda>c w. replicate 70 ''x''),
         toLocaleTimeString = (\<lambda>t. take 8 (drop 11 t)),
         stringOf = (\<lambda>v. [])\<rparr>"

definition long_message :: message where
  "long_message = \<lparr>role = User, content = JStr ''long'', timestamp = ''t1''\<rparr>"

section \<open>Properties\<close>

subsection \<open>Evaluation and invariants\<close>

lemma trim_Hi: "trim ''Hi'' \<noteq> []"
  by code_simp

lemma trim_again: "trim ''again'' \<noteq> []"
  by code_simp

lemma read_response_Throws: "read_response data = Throws \<longleftrightarrow> data = JNull"
  by (cases data) (simp_all split: option.splits)

lemma submit_state:
  "trim (query st) \<noteq> [] \<Longrightarrow> recording_has_session st \<Longrightarrow>
   fst (handleSubmit now st) =
     st\<lparr>messages := messages st @ [\<lparr>role = User, content = JStr (query st), timestamp = now\<rparr>],
        query := [], loading := True, error := None\<rparr>"
  by (auto simp: handleSubmit_def recording_has_session_def Let_def)

lemma settled_failure:
  "r = NetworkFailure \<or> r = Response False body \<Longrightarrow>
   handleSubmit_settled r now st =
     (st\<lparr>error := Some connect_error, loading := False\<rparr>, [ConsoleError ''Learn API error:''])"
  by (auto simp: handleSubmit_settled_def catch_finally_def)

lemma settled_value:
  "read_response data \<noteq> Throws \<Longrightarrow>
   handleSubmit_settled (Response True (Some data)) now st =
     (st\<lparr>messages := messages st @
            [\<lparr>role = Assistant, content = or_default (read_response data) (JStr no_response),
              timestamp = now\<rparr>],
         loading := False\<rparr>,
      [ConsoleLog ''Learn API data:'' data])"
  by (cases "read_response data") (simp_all add: handleSubmit_settled_def)

text \<open>The recognition object is there whenever the component is recording: this holds once
  mounted and every event keeps it, so line 120 never throws.\<close>

lemma recording_has_session_mount:
  "recording_has_session (mount supported now initial_state)"
  by (simp add: recording_has_session_def mount_def initial_state_def)

lemma recording_has_session_dispatch:
  assumes "recording_has_session st"
  shows "recording_has_session (fst (dispatch p e st))"
proof (cases e)
  case (FetchSettled r now)
  with assms show ?thesis
    by (auto simp: recording_has_session_def handleSubmit_settled_def catch_finally_def Let_def
             split: fetch_result.splits option.splits property.splits)
next
  case (TimerFired cb)
  with assms show ?thesis by (cases cb) (simp_all add: recording_has_session_def)
qed (use assms in \<open>auto simp: recording_has_session_def handleKeyPress_def handleSubmit_def
          toggleMicrophoneLearn_def handleCopyText_def handleDownloadPDF_def onresult_def
          onend_def onerror_def Let_def split: prod.splits if_splits\<close>)

lemma recording_has_session_run:
  "recording_has_session st \<Longrightarrow> recording_has_session (run p es st)"
  by (induction es arbitrary: st) (simp_all add: recording_has_session_dispatch)

lemma recording_has_session_mounted: "recording_has_session mounted"
  unfolding mounted_def by (rule recording_has_session_mount)

subsection \<open>Submitting a draft\<close>

text \<open>
  C1. For every draft that is not empty after trimming, one call of \<^verbatim>\<open>handleSubmit\<close>
  appends exactly one message, of role user and with the draft as its content, to the end of
  the sequence, and clears the draft; this is the state before the request settles.
\<close>

theorem submit_appends_user_message:
  assumes "trim (query st) \<noteq> []" and "recording_has_session st"
  shows "messages (fst (handleSubmit now st)) =
           messages st @ [\<lparr>role = User, content = JStr (query st), timestamp = now\<rparr>]
         \<and> query (fst (handleSubmit now st)) = []"
  using assms by (simp add: submit_state)

theorem submit_appends_user_message_witness:
  "trim (query (mounted\<lparr>query := ''Hi''\<rparr>)) \<noteq> []
   \<and> recording_has_session (mounted\<lparr>query := ''Hi''\<rparr>)
   \<and> messages (fst (handleSubmit ''t1'' (mounted\<lparr>query := ''Hi''\<rparr>))) =
       [\<lparr>role = Assistant, content = JStr welcome_text,
         timestamp = ''2025-10-31T20:00:00.000Z''\<rparr>,
        \<lparr>role = User, content = JStr ''Hi'', timestamp = ''t1''\<rparr>]
   \<and> query (fst (handleSubmit ''t1'' (mounted\<lparr>query := ''Hi''\<rparr>))) = []"
proof -
  have a: "trim (query (mounted\<lparr>query := ''Hi''\<rparr>)) \<noteq> []"
    using trim_Hi by simp
  have b: "recording_has_session (mounted\<lparr>query := ''Hi''\<rparr>)"
    using recording_has_session_mounted by (simp add: recording_has_session_def)
  have c: "messages (mounted\<lparr>query := ''Hi''\<rparr>) =
             [\<lparr>role = Assistant, content = JStr welcome_text,
               timestamp = ''2025-10-31T20:00:00.000Z''\<rparr>]"
    by (simp add: mounted_def mount_def)
  show ?thesis
    using a b c submit_appends_user_message [OF a b, of "''t1''"] by simp
qed

subsection \<open>The reply\<close>

text \<open>
  C2, as amended. When the request succeeds and the payload is an object whose
  \<^verbatim>\<open>response\<close> field is the string \<open>X\<close>, exactly one message of role assistant is
  appended; its content is \<open>X\<close> when \<open>X\<close> is not empty and the fixed text
  \<^verbatim>\<open>No response from archive.\<close> when it is (line 143 takes the right operand of
  \<^verbatim>\<open>||\<close> for an empty string). No error state is set.
\<close>

theorem success_appends_reply:
  assumes "map_of kvs ''response'' = Some (JStr X)"
  shows "messages (fst (handleSubmit_settled (Response True (Some (JObj kvs))) now st)) =
           messages st @
           [\<lparr>role = Assistant,
             content = JStr (if X = [] then ''No response from archive.'' else X),
             timestamp = now\<rparr>]
         \<and> error (fst (handleSubmit_settled (Response True (Some (JObj kvs))) now st)) = error st"
  using assms by (simp add: settled_value no_response_def)

theorem success_appends_reply_witness:
  "map_of [(''response'', JStr ''Gopher is a protocol.'')] ''response'' =
     Some (JStr ''Gopher is a protocol.'')
   \<and> messages (fst (handleSubmit_settled
                     (Response True (Some (JObj [(''response'', JStr ''Gopher is a protocol.'')])))
                     ''t2'' pending)) =
       messages pending @
       [\<lparr>role = Assistant, content = JStr ''Gopher is a protocol.'', timestamp = ''t2''\<rparr>]
   \<and> error (fst (handleSubmit_settled
                   (Response True (Some (JObj [(''response'', JStr ''Gopher is a protocol.'')])))
                   ''t2'' pending)) = None"
proof -
  have a: "map_of [(''response'', JStr ''Gopher is a protocol.'')] ''response'' =
             Some (JStr ''Gopher is a protocol.'')"
    by simp
  have b: "error pending = None"
    by (simp add: pending_def)
  show ?thesis
    using a b success_appends_reply [OF a, of "''t2''" pending] by simp
qed

text \<open>The claim as written, for every string \<open>X\<close>, fails at the empty string: the content
  of the appended message is the fixed text, not \<open>X\<close>.\<close>

theorem empty_reply_counterexample:
  "messages (fst (handleSubmit_settled
                    (Response True (Some (JObj [(''response'', JStr [])]))) ''t2'' pending)) =
     messages pending @
     [\<lparr>role = Assistant, content = JStr ''No response from archive.'', timestamp = ''t2''\<rparr>]
   \<and> messages (fst (handleSubmit_settled
                      (Response True (Some (JObj [(''response'', JStr [])]))) ''t2'' pending)) \<noteq>
     messages pending @ [\<lparr>role = Assistant, content = JStr [], timestamp = ''t2''\<rparr>]"
  by (simp add: settled_value no_response_def)

text \<open>
  C5, as amended. When the request succeeds and the parsed payload is a JSON value other
  than \<^verbatim>\<open>null\<close> and has no \<^verbatim>\<open>response\<close> field, exactly one message of role assistant
  is appended, its content is the fixed text \<^verbatim>\<open>No response from archive.\<close>, and the
  handler does not take its error path: the error state is untouched and loading ends.
\<close>

theorem missing_field_gives_fallback:
  assumes "data \<noteq> JNull" and "\<not> has_response_field data"
  shows "messages (fst (handleSubmit_settled (Response True (Some data)) now st)) =
           messages st @
           [\<lparr>role = Assistant, content = JStr ''No response from archive.'', timestamp = now\<rparr>]
         \<and> error (fst (handleSubmit_settled (Response True (Some data)) now st)) = error st
         \<and> loading (fst (handleSubmit_settled (Response True (Some data)) now st)) = False"
proof -
  have "read_response data = Undefined"
    using assms by (cases data) (simp_all add: has_response_field_def)
  then show ?thesis
    by (simp add: settled_value no_response_def)
qed

theorem missing_field_gives_fallback_witness:
  "JObj [(''detail'', JStr ''busy'')] \<noteq> JNull
   \<and> \<not> has_response_field (JObj [(''detail'', JStr ''busy'')])
   \<and> messages (fst (handleSubmit_settled
                     (Response True (Some (JObj [(''detail'', JStr ''busy'')]))) ''t2'' pending)) =
       messages pending @
       [\<lparr>role = Assistant, content = JStr ''No response from archive.'', timestamp = ''t2''\<rparr>]
   \<and> error (fst (handleSubmit_settled
                   (Response True (Some (JObj [(''detail'', JStr ''busy'')]))) ''t2'' pending)) = None
   \<and> loading (fst (handleSubmit_settled
                     (Response True (Some (JObj [(''detail'', JStr ''busy'')]))) ''t2'' pending)) = False"
proof -
  have a: "JObj [(''detail'', JStr ''busy'')] \<noteq> JNull"
    by simp
  have b: "\<not> has_response_field (JObj [(''detail'', JStr ''busy'')])"
    by (simp add: has_response_field_def)
  have c: "error pending = None"
    by (simp add: pending_def)
  show ?thesis
    using a b c missing_field_gives_fallback [OF a b, of "''t2''" pending] by simp
qed

text \<open>The claim as written, for every parsed payload without a \<^verbatim>\<open>response\<close> field,
  fails at the payload \<^verbatim>\<open>null\<close>: reading \<^verbatim>\<open>data.response\<close> throws, the \<^verbatim>\<open>catch\<close> block
  sets the error state and no message is appended.\<close>

theorem null_payload_counterexample:
  "\<not> has_response_field JNull
   \<and> messages (fst (handleSubmit_settled (Response True (Some JNull)) ''t2'' pending)) =
       messages pending
   \<and> error (fst (handleSubmit_settled (Response True (Some JNull)) ''t2'' pending)) =
       Some ''Unable to connect to archive. Please try again.''"
  by (simp add: has_response_field_def handleSubmit_settled_def catch_finally_def
                connect_error_def)

subsection \<open>Failure of the request\<close>

text \<open>
  C3. When the request is rejected or answered with a status outside 2xx, no message is
  appended and the error state becomes \<^verbatim>\<open>Unable to connect to archive. Please try again.\<close>;
  a later submission of a non-blank draft clears the error state at once, and it is still
  clear when that submission has settled with success.
\<close>

theorem failure_sets_error_until_next_success:
  assumes "r = NetworkFailure \<or> r = Response False body"
      and "trim (query st2) \<noteq> []" and "recording_has_session st2"
      and "data \<noteq> JNull"
  shows "messages (fst (handleSubmit_settled r now st)) = messages st
       \<and> error (fst (handleSubmit_settled r now st)) =
           Some ''Unable to connect to archive. Please try again.''
       \<and> error (fst (handleSubmit now2 st2)) = None
       \<and> error (fst (handleSubmit_settled (Response True (Some data)) now3
                       (fst (handleSubmit now2 st2)))) = None"
  using assms
  by (simp add: settled_failure submit_state settled_value read_response_Throws
                connect_error_def)

text \<open>The request of \<open>pending\<close> is answered with a status outside 2xx; the user types a new
  draft, submits it, and this time the request succeeds.\<close>

theorem failure_sets_error_until_next_success_witness:
  "(Response False None = NetworkFailure \<or> Response False None = Response False None)
   \<and> trim (query ((fst (handleSubmit_settled (Response False None) ''t2'' pending))
                    \<lparr>query := ''again''\<rparr>)) \<noteq> []
   \<and> recording_has_session ((fst (handleSubmit_settled (Response False None) ''t2'' pending))
                              \<lparr>query := ''again''\<rparr>)
   \<and> JObj [(''response'', JStr ''Hello'')] \<noteq> JNull
   \<and> messages (fst (handleSubmit_settled (Response False None) ''t2'' pending)) = messages pending
   \<and> error (fst (handleSubmit_settled (Response False None) ''t2'' pending)) =
       Some ''Unable to connect to archive. Please try again.''
   \<and> error ((fst (handleSubmit_settled (Response False None) ''t2'' pending))
              \<lparr>query := ''again''\<rparr>) =
       Some ''Unable to connect to archive. Please try again.''
   \<and> error (fst (handleSubmit ''t3''
                   ((fst (handleSubmit_settled (Response False None) ''t2'' pending))
                    \<lparr>query := ''again''\<rparr>))) = None
   \<and> error (fst (handleSubmit_settled (Response True (Some (JObj [(''response'', JStr ''Hello'')])))
                   ''t4''
                   (fst (handleSubmit ''t3''
                          ((fst (handleSubmit_settled (Response False None) ''t2'' pending))
                           \<lparr>query := ''again''\<rparr>))))) = None"
proof -
  let ?failed = "fst (handleSubmit_settled (Response False None) ''t2'' pending)"
  have a: "Response False None = NetworkFailure \<or> Response False None = Response False None"
    by simp
  have b: "trim (query (?failed\<lparr>query := ''again''\<rparr>)) \<noteq> []"
    using trim_again by simp
  have c: "recording_has_session (?failed\<lparr>query := ''again''\<rparr>)"
    by (simp add: recording_has_session_def settled_failure pending_def)
  have d: "JObj [(''response'', JStr ''Hello'')] \<noteq> JNull"
    by simp
  have e: "error (?failed\<lparr>query := ''again''\<rparr>) =
             Some ''Unable to connect to archive. Please try again.''"
    by (simp add: settled_failure connect_error_def)
  show ?thesis
    using a b c d e
      failure_sets_error_until_next_success [OF a b c d, of "''t2''" pending "''t3''" "''t4''"]
    by blast
qed

subsection \<open>Submitting while a request is in flight\<close>

lemma pending_reached:
  "run a4 [MicClick, SpeechResult 0 [(''Hi'', False)], FormSubmit ''t1'',
           SpeechResult 0 [(''again'', True)], SpeechEnd]
     (mount True ''t0'' initial_state) = pending"
  using trim_Hi
  by (simp add: toggleMicrophoneLearn_def onresult_def handleSubmit_def onend_def
                mount_def initial_state_def pending_def)


subsection \<open>The request body\<close>

text \<open>
  C10. Whenever \<^verbatim>\<open>handleSubmit\<close> issues its request, the \<^verbatim>\<open>query\<close> field of the body
  is the content of the user message that the same call appended, which is the draft as it
  was before being cleared; the request goes to the \<^verbatim>\<open>/api/learn\<close> endpoint.
\<close>

theorem request_body_is_user_message:
  assumes "handleSubmit now st = (st', effs)" and "Fetch u m h body \<in> set effs"
  shows "\<exists>msg. messages st' = messages st @ [msg] \<and> role msg = User
               \<and> content msg = JStr (query st)
               \<and> body = JObj [(''query'', content msg)]
               \<and> u = ''http://localhost:5000/api/learn''"
  using assms
  by (auto simp: handleSubmit_def Let_def api_url_def split: if_splits)

theorem request_body_is_user_message_witness:
  "handleSubmit ''t1'' (mounted\<lparr>query := ''Hi''\<rparr>) =
     (fst (handleSubmit ''t1'' (mounted\<lparr>query := ''Hi''\<rparr>)),
      snd (handleSubmit ''t1'' (mounted\<lparr>query := ''Hi''\<rparr>)))
   \<and> Fetch ''http://localhost:5000/api/learn'' ''POST''
        [(''Content-Type'', ''application/json'')] (JObj [(''query'', JStr ''Hi'')])
      \<in> set (snd (handleSubmit ''t1'' (mounted\<lparr>query := ''Hi''\<rparr>)))
   \<and> (\<exists>msg. messages (fst (handleSubmit ''t1'' (mounted\<lparr>query := ''Hi''\<rparr>))) =
               messages (mounted\<lparr>query := ''Hi''\<rparr>) @ [msg]
             \<and> role msg = User \<and> content msg = JStr ''Hi''
             \<and> JObj [(''query'', JStr ''Hi'')] = JObj [(''query'', content msg)])"
proof -
  let ?st = "mounted\<lparr>query := ''Hi''\<rparr>"
  have a: "handleSubmit ''t1'' ?st = (fst (handleSubmit ''t1'' ?st), snd (handleSubmit ''t1'' ?st))"
    by simp
  have "trim (query ?st) \<noteq> []"
    using trim_Hi by simp
  moreover have "\<not> isRecordingLearn ?st"
    by (simp add: mounted_def mount_def initial_state_def)
  ultimately have b:
    "Fetch ''http://localhost:5000/api/learn'' ''POST''
       [(''Content-Type'', ''application/json'')] (JObj [(''query'', JStr ''Hi'')])
     \<in> set (snd (handleSubmit ''t1'' ?st))"
    by (simp add: handleSubmit_def api_url_def)
  show ?thesis
    using a b request_body_is_user_message [OF a b] by auto
qed

subsection \<open>The message sequence only grows\<close>

lemma dispatch_messages:
  "messages (fst (dispatch p e st)) = messages st
   \<or> (\<exists>m. messages (fst (dispatch p e st)) = messages st @ [m])"
proof (cases e)
  case (FetchSettled r now)
  then show ?thesis
    by (auto simp: handleSubmit_settled_def catch_finally_def Let_def
             split: fetch_result.splits option.splits property.splits)
next
  case (TimerFired cb)
  then show ?thesis by (cases cb) simp_all
qed (auto simp: handleKeyPress_def handleSubmit_def toggleMicrophoneLearn_def
          handleCopyText_def handleDownloadPDF_def onresult_def onend_def onerror_def
          Let_def split: prod.splits if_splits)

lemma run_append_only:
  "prefix (messages st) (messages (run p es st))
   \<and> length (messages (run p es st)) \<le> length (messages st) + length es"
proof (induction es arbitrary: st)
  case Nil
  show ?case by simp
next
  case (Cons e es)
  let ?st1 = "fst (dispatch p e st)"
  have step: "prefix (messages st) (messages ?st1)
              \<and> length (messages ?st1) \<le> length (messages st) + 1"
    using dispatch_messages [of p e st] by auto
  have rest: "prefix (messages ?st1) (messages (run p es ?st1))
              \<and> length (messages (run p es ?st1)) \<le> length (messages ?st1) + length es"
    using Cons.IH by blast
  from step rest show ?case
    by (auto intro: prefix_order.trans)
qed

text \<open>
  C6. Once the component is mounted (the welcome message is seeded), every event leaves
  the message sequence as it is or appends one message at its end; so over any run the
  earlier sequence is a prefix of the later one, position by position unchanged, and it has
  grown by at most one message per event.
\<close>

theorem messages_append_only:
  "(messages (fst (dispatch p e st)) = messages st
      \<or> (\<exists>m. messages (fst (dispatch p e st)) = messages st @ [m]))
   \<and> prefix (messages st) (messages (run p es st))
   \<and> length (messages (run p es st)) \<le> length (messages st) + length es"
  using dispatch_messages run_append_only by blast

theorem messages_append_only_witness:
  "messages (run a4 [Change ''Hi'', FormSubmit ''t1'',
                     FetchSettled (Response True (Some (JObj [(''response'', JStr ''Hello'')])))
                       ''t2'']
               mounted) =
     messages mounted @
     [\<lparr>role = User, content = JStr ''Hi'', timestamp = ''t1''\<rparr>,
      \<lparr>role = Assistant, content = JStr ''Hello'', timestamp = ''t2''\<rparr>]
   \<and> prefix (messages mounted)
        (messages (run a4 [Change ''Hi'', FormSubmit ''t1'',
                           FetchSettled (Response True (Some (JObj [(''response'', JStr ''Hello'')])))
                             ''t2'']
                     mounted))"
proof -
  let ?es = "[Change ''Hi'', FormSubmit ''t1'',
              FetchSettled (Response True (Some (JObj [(''response'', JStr ''Hello'')]))) ''t2'']"
  have m: "\<not> loading mounted \<and> \<not> isRecordingLearn mounted"
    by (simp add: mounted_def mount_def initial_state_def)
  have "messages (run a4 ?es mounted) =
          messages mounted @
          [\<lparr>role = User, content = JStr ''Hi'', timestamp = ''t1''\<rparr>,
           \<lparr>role = Assistant, content = JStr ''Hello'', timestamp = ''t2''\<rparr>]"
    using m trim_Hi by (simp add: handleSubmit_def settled_value)
  then show ?thesis
    using messages_append_only [of a4 "Change ''Hi''" mounted ?es] by blast
qed

subsection \<open>Plain-text export\<close>

lemma join_loop_acc:
  "join_loop sep xs (Suc k) R = R @ concat (map (\<lambda>x. sep @ x) xs)"
  by (induction xs arbitrary: k R) simp_all

lemma js_join_Cons: "js_join sep (x # xs) = x @ concat (map (\<lambda>y. sep @ y) xs)"
  by (simp add: js_join_def join_loop_acc)

lemma spec_export_Cons:
  "spec_export p (m # ms) =
     spec_block p m @ concat (map (\<lambda>b. newline @ b) (map (spec_block p) ms))"
  by (induction ms arbitrary: m) simp_all

lemma block_eq:
  "(let time = toLocaleTimeString p (timestamp msg); r = role_label (role msg)
    in ''['' @ time @ ''] '' @ r @ '':'' @ newline @ ToString p (content msg) @ newline)
   = spec_block p msg"
  by (cases "role msg") (simp_all add: spec_block_def role_label_def)

text \<open>
  C8. For every message sequence the text copied to the clipboard is the specification's
  export: one block \<^verbatim>\<open>[time] ROLE:\<close>, newline, content, newline per message, with ROLE
  \<^verbatim>\<open>YOU\<close> for a user and \<^verbatim>\<open>ARCHIVE\<close> for an assistant message, the blocks in the order
  of the sequence with one newline between two of them, none added, dropped or moved. For
  the messages (user, Hi, t1) and (assistant, Hello, t2) it is exactly the two blocks.
\<close>

theorem plain_text_export:
  "conversationText p msgs = spec_export p msgs
   \<and> conversationText p
        [\<lparr>role = User, content = JStr ''Hi'', timestamp = t1\<rparr>,
         \<lparr>role = Assistant, content = JStr ''Hello'', timestamp = t2\<rparr>] =
      ''['' @ toLocaleTimeString p t1 @ ''] YOU:'' @ newline @ ''Hi'' @ newline
      @ newline
      @ ''['' @ toLocaleTimeString p t2 @ ''] ARCHIVE:'' @ newline @ ''Hello'' @ newline"
proof -
  have gen: "conversationText p ms = spec_export p ms" for ms
  proof (cases ms)
    case Nil
    then show ?thesis by (simp add: conversationText_def js_join_def)
  next
    case (Cons m rest)
    then show ?thesis
      unfolding conversationText_def block_eq
      by (simp add: js_join_Cons spec_export_Cons)
  qed
  show ?thesis
    by (simp add: gen spec_block_def ToString_def)
qed

theorem plain_text_export_witness:
  "snd (handleCopyText a4
          (mounted\<lparr>messages :=
             [\<lparr>role = User, content = JStr ''Hi'', timestamp = ''2025-10-31T20:00:05.000Z''\<rparr>,
              \<lparr>role = Assistant, content = JStr ''Hello'',
                timestamp = ''2025-10-31T20:00:07.000Z''\<rparr>]\<rparr>)) =
     [ClipboardWrite (''[20:00:05] YOU:'' @ newline @ ''Hi'' @ newline @ newline
                      @ ''[20:00:07] ARCHIVE:'' @ newline @ ''Hello'' @ newline),
      Notify ''Conversation copied to clipboard!'']"
  using plain_text_export [of a4 "[]" "''2025-10-31T20:00:05.000Z''" "''2025-10-31T20:00:07.000Z''"]
  by (simp add: handleCopyText_def a4_def)

subsection \<open>The silence timer of dictation\<close>

text \<open>When \<^verbatim>\<open>toggleMicrophoneLearn\<close> starts dictation, the flag its timer closes over is
  the one it has just tested in line 77, so the callback does nothing when it fires.\<close>

lemma auto_stop_captures_false:
  assumes "recognitionLearn st \<noteq> None" and "\<not> loading st" and "\<not> isRecordingLearn st"
      and "SetTimeout cb 3000 \<in> set (snd (toggleMicrophoneLearn st))"
  shows "cb = AutoStop False \<and> run_callback cb st' = (st', [])"
  using assms by (auto simp: toggleMicrophoneLearn_def)

text \<open>
  C9. Dictation that is started and not stopped by hand should be stopped by the component's
  timer after three seconds. Evaluated on the mounted component: the click starts the
  session and schedules the timer with the captured flag false; when the timer fires and
  the component is still recording, no \<^verbatim>\<open>stop\<close> is called on the session.
\<close>

theorem silence_timer_does_not_stop:
  "toggleMicrophoneLearn mounted =
     (mounted\<lparr>isRecordingLearn := True\<rparr>,
      [RecognitionStart, SetTimeout (AutoStop False) 3000])
   \<and> isRecordingLearn (mounted\<lparr>isRecordingLearn := True\<rparr>)
   \<and> run_callback (AutoStop False) (mounted\<lparr>isRecordingLearn := True\<rparr>) =
       (mounted\<lparr>isRecordingLearn := True\<rparr>, [])
   \<and> RecognitionStop \<notin> set (snd (dispatch a4 (TimerFired (AutoStop False))
                                      (mounted\<lparr>isRecordingLearn := True\<rparr>)))"
  by (simp add: toggleMicrophoneLearn_def mounted_def mount_def initial_state_def)

subsection \<open>Pagination of the PDF export\<close>

lemma first_text_y_append:
  "first_text_y a = Some y \<Longrightarrow> first_text_y (a @ b) = Some y"
  by (induction a rule: first_text_y.induct) simp_all

lemma breaks_ok_append:
  assumes "breaks_ok a" and "breaks_ok b"
  shows "breaks_ok (a @ b)"
  unfolding breaks_ok_def
proof (intro allI impI)
  fix pre post
  assume eq: "a @ b = pre @ AddPage # post"
  then consider (left) us where "a = pre @ us" "us @ b = AddPage # post"
    | (right) us where "a @ us = pre" "b = us @ AddPage # post"
    by (auto simp: append_eq_append_conv2)
  then show "first_text_y post = Some margin"
  proof cases
    case left
    show ?thesis
    proof (cases us)
      case Nil
      with left have "b = [] @ AddPage # post" by simp
      with assms(2) show ?thesis unfolding breaks_ok_def by blast
    next
      case (Cons u us')
      with left have "a = pre @ AddPage # us'" and post: "post = us' @ b" by auto
      with assms(1) have "first_text_y us' = Some margin" unfolding breaks_ok_def by blast
      then show ?thesis using post by (simp add: first_text_y_append)
    qed
  next
    case right
    with assms(2) show ?thesis unfolding breaks_ok_def by blast
  qed
qed

lemma breaks_ok_no_page: "AddPage \<notin> set ops \<Longrightarrow> breaks_ok ops"
  by (auto simp: breaks_ok_def)

lemma breaks_ok_line: "breaks_ok [AddPage, Text s x margin]"
  by (auto simp: breaks_ok_def Cons_eq_append_conv)

lemma breaks_ok_header: "breaks_ok [AddPage, SetFont a b, Text s x margin, SetFont c d]"
  by (auto simp: breaks_ok_def Cons_eq_append_conv)

lemma write_lines_breaks: "breaks_ok (fst (write_lines H ls y))"
proof (induction ls arbitrary: y)
  case Nil
  show ?case by (simp add: breaks_ok_no_page)
next
  case (Cons l ls)
  show ?case
  proof (cases "y > H - margin")
    case True
    have "fst (write_lines H (l # ls) y) =
            [AddPage, Text l margin margin] @ fst (write_lines H ls (margin + lineHeight))"
      using True by (simp add: split_def Let_def)
    then show ?thesis
      using breaks_ok_append [OF breaks_ok_line Cons.IH] by simp
  next
    case False
    have "fst (write_lines H (l # ls) y) =
            [Text l margin y] @ fst (write_lines H ls (y + lineHeight))"
      using False by (simp add: split_def Let_def)
    moreover have "breaks_ok [Text l margin y]"
      by (simp add: breaks_ok_no_page)
    ultimately show ?thesis
      using breaks_ok_append Cons.IH by metis
  qed
qed

lemma write_lines_within:
  assumes "margin \<le> H - margin"
  shows "texts_within (H - margin) (fst (write_lines H ls y))"
  using assms
  by (induction ls arbitrary: y) (auto simp: texts_within_def split_def Let_def)

lemma write_message_ops:
  "fst (write_message p msg y) =
     (if y > pageHeight p - margin
      then [AddPage, SetFont ''courier'' ''bold'',
            Text (''['' @ toLocaleTimeString p (timestamp msg) @ ''] ''
                  @ role_label (role msg) @ '':'') margin margin,
            SetFont ''courier'' ''normal'']
           @ fst (write_lines (pageHeight p)
                    (splitTextToSize p (content msg) (pageWidth p - 2 * margin))
                    (margin + lineHeight))
      else [SetFont ''courier'' ''bold'',
            Text (''['' @ toLocaleTimeString p (timestamp msg) @ ''] ''
                  @ role_label (role msg) @ '':'') margin y,
            SetFont ''courier'' ''normal'']
           @ fst (write_lines (pageHeight p)
                    (splitTextToSize p (content msg) (pageWidth p - 2 * margin))
                    (y + lineHeight)))"
  by (simp add: write_message_def split_def Let_def)

lemma write_message_breaks: "breaks_ok (fst (write_message p msg y))"
proof (cases "y > pageHeight p - margin")
  case True
  show ?thesis
    unfolding write_message_ops if_P [OF True]
    by (rule breaks_ok_append [OF breaks_ok_header write_lines_breaks])
next
  case False
  have "breaks_ok [SetFont a b, Text s x y', SetFont c d]" for a b s x y' c d
    by (simp add: breaks_ok_no_page)
  then show ?thesis
    unfolding write_message_ops if_not_P [OF False]
    by (rule breaks_ok_append [OF _ write_lines_breaks])
qed

lemma write_message_within:
  assumes "margin \<le> pageHeight p - margin"
  shows "texts_within (pageHeight p - margin) (fst (write_message p msg y))"
  using assms write_lines_within [OF assms]
  by (auto simp: write_message_def texts_within_def split_def Let_def)

lemma write_messages_breaks: "breaks_ok (fst (write_messages p msgs y))"
  by (induction msgs arbitrary: y)
     (simp_all add: breaks_ok_no_page split_def Let_def breaks_ok_append write_message_breaks)

lemma write_messages_within:
  assumes "margin \<le> pageHeight p - margin"
  shows "texts_within (pageHeight p - margin) (fst (write_messages p msgs y))"
proof (induction msgs arbitrary: y)
  case Nil
  show ?case by (simp add: texts_within_def)
next
  case (Cons m ms)
  then show ?case
    using write_message_within [OF assms, of m y]
    by (auto simp: texts_within_def split_def Let_def)
qed

text \<open>
  C7. For every message sequence, on a page that is at least two margins high, no header
  and no wrapped content line of a message is written below the bottom margin, that is at a
  vertical position beyond \<^verbatim>\<open>pageHeight - margin\<close>; and wherever a new page is started, the
  next text is written at the top margin. The example is one message whose content wraps
  to 70 lines on an A4 page: it breaks the page twice.
\<close>

theorem pdf_pagination:
  assumes "2 * margin \<le> pageHeight p"
  shows "(\<forall>s x y. Text s x y \<in> set (message_ops p msgs) \<longrightarrow> y \<le> pageHeight p - margin)
       \<and> (\<forall>pre post. message_ops p msgs = pre @ AddPage # post \<longrightarrow>
                       first_text_y post = Some margin)"
proof -
  have "margin \<le> pageHeight p - margin"
    using assms by simp
  then have "texts_within (pageHeight p - margin) (message_ops p msgs)"
    unfolding message_ops_def by (rule write_messages_within)
  moreover have "breaks_ok (message_ops p msgs)"
    unfolding message_ops_def by (rule write_messages_breaks)
  ultimately show ?thesis
    unfolding texts_within_def breaks_ok_def by blast
qed

lemmas pdf_example_defs =
  message_ops_def write_message_def a4_def long_message_def margin_def lineHeight_def
  role_label_def eval_nat_numeral

theorem pdf_pagination_witness:
  "2 * margin \<le> pageHeight a4
   \<and> length (filter (\<lambda>op. op = AddPage) (message_ops a4 [long_message])) = 2
   \<and> Text ''x'' margin 274 \<in> set (message_ops a4 [long_message])
   \<and> 274 \<le> pageHeight a4 - margin
   \<and> message_ops a4 [long_message] =
       take 35 (message_ops a4 [long_message]) @ AddPage
       # drop 36 (message_ops a4 [long_message])
   \<and> first_text_y (drop 36 (message_ops a4 [long_message])) = Some margin"
proof -
  have a: "2 * margin \<le> pageHeight a4"
    by (simp add: a4_def margin_def)
  have b: "length (filter (\<lambda>op. op = AddPage) (message_ops a4 [long_message])) = 2"
    by (simp add: pdf_example_defs)
  have c: "Text ''x'' margin 274 \<in> set (message_ops a4 [long_message])"
    by (simp add: pdf_example_defs)
  have d: "message_ops a4 [long_message] =
             take 35 (message_ops a4 [long_message]) @ AddPage
             # drop 36 (message_ops a4 [long_message])"
    by (simp add: pdf_example_defs)
  show ?thesis
    using a b c d pdf_pagination [OF a, of "[long_message]"] by blast
qed

end
